theory Spec2Isabelle
  imports Complex_Main
begin

section \<open>Delay-and-sum matrix construction (pymust/dasmtx.py)\<close>

text \<open>
  The development embeds the reading of the optional argument \<open>METHOD\<close> (lines 224 to
  247) and the computational part (lines 428 to 614) of \<open>dasmtx\<close> in
  \<open>src/pymust/dasmtx.py\<close>. numpy's float64 arrays are modelled by lists of reals, a
  two-dimensional array by the list of its rows, and floating-point arithmetic by the
  arithmetic of the reals. A delay that is NaN (an element that is off) is \<open>None\<close>.
  Python exceptions are values of the type \<open>error\<close>; an assertion error carries the
  message of its \<open>assert\<close>.
\<close>

datatype error =
  AssertionError string | ValueError | IndexError | UnboundLocalError | AttributeError | TypeError

text \<open>The messages of the assertions of lines 365 and 429.\<close>

definition delays_length :: string where
  "delays_length = ''DELAYS and/or PARAM.TXdelay must be vectors of length size(SIG,2).''"

definition several_subapertures :: string where
  "several_subapertures = ''Several simultaneous sub-apertures are not allowed.''"

text \<open>The interpolation scheme, the argument \<open>METHOD\<close> of the routine.\<close>

datatype interp_method = Nearest | Linear | Quadratic | Lanczos3 | FivePoints | Lanczos5

subsection \<open>Transmit sub-aperture check (lines 428 and 429)\<close>

text \<open>\<open>idx = np.logical_not(np.isnan(delaysTX))\<close>\<close>

definition active :: "real option list \<Rightarrow> bool list" where
  "active delaysTX = map (\<lambda>d. d \<noteq> None) delaysTX"

text \<open>
  \<open>np.diff\<close> of a boolean array is the exclusive or of neighbours, \<open>np.abs\<close> leaves
  booleans unchanged and \<open>np.sum\<close> counts the entries that are True.
\<close>

fun diff_bool :: "bool list \<Rightarrow> bool list" where
  "diff_bool (a # b # bs) = (a \<noteq> b) # diff_bool (b # bs)"
| "diff_bool bs = []"

definition sum_bool :: "bool list \<Rightarrow> nat" where
  "sum_bool bs = length (filter id bs)"

definition check_subaperture :: "real option list \<Rightarrow> error + unit" where
  "check_subaperture delaysTX =
     (if sum_bool (diff_bool (active delaysTX)) < 3 then Inr ()
      else Inl (AssertionError several_subapertures))"

text \<open>
  The number of maximal runs of active elements, counted at the end of each run. The
  active elements form a single contiguous run when \<open>runs\<close> is 1.
\<close>

fun runs :: "bool list \<Rightarrow> nat" where
  "runs [] = 0"
| "runs [a] = (if a then 1 else 0)"
| "runs (a # b # bs) = (if a \<and> \<not> b then 1 else 0) + runs (b # bs)"

subsection \<open>numpy functions used by the routine\<close>

text \<open>\<open>np.sinc\<close> is the normalised sinc, with value 1 at 0.\<close>

definition sinc :: "real \<Rightarrow> real" where
  "sinc t = (if t = 0 then 1 else sin (pi * t) / (pi * t))"

text \<open>\<open>np.round\<close> rounds a half to the even neighbour.\<close>

definition np_round :: "real \<Rightarrow> int" where
  "np_round t =
     (let f = \<lfloor>t\<rfloor>; d = t - of_int f
      in if d < 1 / 2 then f else if 1 / 2 < d then f + 1 else if even f then f else f + 1)"

text \<open>\<open>np.linspace(a, b, n)\<close>\<close>

definition linspace :: "real \<Rightarrow> real \<Rightarrow> nat \<Rightarrow> real list" where
  "linspace a b n =
     (if n = 1 then [a] else map (\<lambda>k. a + real k * ((b - a) / real (n - 1))) [0..<n])"

text \<open>Indexing with a boolean mask, \<open>xs[idx]\<close>.\<close>

definition select :: "bool list \<Rightarrow> 'a list \<Rightarrow> 'a list" where
  "select idx xs = map snd (filter fst (zip idx xs))"

text \<open>\<open>np.tile(xs, n)\<close> for a one-dimensional array.\<close>

definition tile :: "'a list \<Rightarrow> nat \<Rightarrow> 'a list" where
  "tile xs n = concat (replicate n xs)"

subsection \<open>Data\<close>

text \<open>
  \<open>param.getElementPositions()\<close> is not part of the sources at hand; its result, one
  position and one normal angle per element, is an argument of the model. The image points
  are the pairs of the flattened \<open>x\<close> and \<open>z\<close>, which line 229 asserts to have the same
  shape.
\<close>

record element =
  xe :: real
  ze :: real
  THe :: real

type_synonym point = "real \<times> real"

text \<open>A point of the densified transmit front: \<open>xTi\<close>, \<open>zTi\<close> and \<open>delaysTXi\<close>.\<close>

record fpoint =
  xTi :: real
  zTi :: real
  delaysTXi :: real

text \<open>
  The fields of \<open>param\<close> that lines 428 to 614 read, after the input checks of lines 276
  to 406 have filled in the defaults. \<open>fnumber = None\<close> asks for the automatic f-number,
  \<open>radius = None\<close> is \<open>np.inf\<close> (a linear array), \<open>TransposeDASMatrix = None\<close> says that
  the field is absent. \<open>is_passive\<close> is \<open>param.passive\<close>, and \<open>isRXangle\<close> of line 338
  is \<open>RXangle \<noteq> 0\<close>.
\<close>

record param =
  fs :: real
  c :: real
  t0 :: real
  fnumber :: "real option"
  is_passive :: bool
  radius :: "real option"
  RXangle :: real
  fc :: real
  width :: real
  bandwidth :: real
  TransposeDASMatrix :: "bool option"

subsection \<open>Transmit front (lines 431 to 447)\<close>

datatype kind = Cubic | Spline

text \<open>
  \<open>utils.interp1\<close> is not part of the sources at hand and is an argument: it returns one
  value for each query position. With one active element and a linear array, \<open>zTi\<close> is
  \<open>np.zeros_like(idx)\<close>, of the shape of the whole delay vector, and broadcasting at line
  479 repeats the one front point once per element.
\<close>

definition tx_front ::
  "(real list \<Rightarrow> real list \<Rightarrow> kind \<Rightarrow> real list) \<Rightarrow> bool \<Rightarrow> element list \<Rightarrow> real option list
     \<Rightarrow> fpoint list" where
  "tx_front interp1 isLINEAR els delaysTX =
     (let idx = active delaysTX;
          nTX = sum_bool idx;
          xa = select idx (map xe els);
          za = select idx (map ze els);
          da = List.map_filter id delaysTX
      in if nTX > 1 then
           (let idxi = linspace 0 (real nTX - 1) (4 * nTX);
                xT = interp1 xa idxi Cubic;
                zT = (if isLINEAR then map (\<lambda>_. 0) xT else interp1 za idxi Spline);
                dT = interp1 da idxi Spline
            in map (\<lambda>(xf, zf, df). \<lparr>xTi = xf, zTi = zf, delaysTXi = df\<rparr>) (zip xT (zip zT dT)))
         else if isLINEAR then
           concat (map (\<lambda>(xf, df). replicate (length idx) \<lparr>xTi = xf, zTi = 0, delaysTXi = df\<rparr>)
                       (zip xa da))
         else map (\<lambda>(xf, zf, df). \<lparr>xTi = xf, zTi = zf, delaysTXi = df\<rparr>) (zip xa (zip za da)))"

subsection \<open>Automatic f-number (lines 453 to 461)\<close>

text \<open>
  The parameters of \<open>scipy.optimize.fminbound\<close>. A call with a keyword argument that is
  not a parameter raises TypeError. Without \<open>full_output\<close> the function returns the
  abscissa of the minimum, a float, and a float has no attribute \<open>xopt\<close>.
\<close>

definition fminbound_params :: "string list" where
  "fminbound_params =
     [''func'', ''x1'', ''x2'', ''args'', ''xtol'', ''maxfun'', ''full_output'', ''disp'']"

definition py_call :: "string list \<Rightarrow> string list \<Rightarrow> 'a \<Rightarrow> error + 'a" where
  "py_call params kwargs result =
     (if list_all (\<lambda>k. k \<in> set params) kwargs then Inr result else Inl TypeError)"

definition float_xopt :: "real \<Rightarrow> error + real" where
  "float_xopt v = Inl AttributeError"

definition objective :: "real \<Rightarrow> real \<Rightarrow> real \<Rightarrow> real \<Rightarrow> real" where
  "objective ElementWidth lambdaMIN RXa th =
     \<bar>cos (th + RXa) * sinc (ElementWidth / lambdaMIN * sin (th + RXa)) - 0.71\<bar>"

definition auto_fnumber ::
  "((real \<Rightarrow> real) \<Rightarrow> real \<Rightarrow> real \<Rightarrow> real) \<Rightarrow> param \<Rightarrow> error + real" where
  "auto_fnumber minimizer P =
     (let lambdaMIN = c P / (fc P * (1 + bandwidth P / 200));
          RXa = \<bar>RXangle P\<bar>;
          f = objective (width P) lambdaMIN RXa
      in case py_call fminbound_params [''tolx''] (minimizer f 0 (pi / 2 - RXa)) of
           Inl err \<Rightarrow> Inl err
         | Inr x \<Rightarrow>
             (case float_xopt x of
                Inl err \<Rightarrow> Inl err
              | Inr alpha \<Rightarrow> Inr (1 / 2 / tan alpha)))"

subsection \<open>Distances, travel times and fast-time indices (lines 474 to 497)\<close>

definition arrival :: "param \<Rightarrow> point \<Rightarrow> fpoint \<Rightarrow> real" where
  "arrival P p f = delaysTXi f * c P + sqrt ((xTi f - fst p)\<^sup>2 + (zTi f - snd p)\<^sup>2)"

text \<open>
  \<open>np.min(..., 1)\<close> folds the minimum over the front points and raises ValueError when
  there is none.
\<close>

definition dTX :: "param \<Rightarrow> fpoint list \<Rightarrow> point list \<Rightarrow> error + real list" where
  "dTX P front pts =
     (if \<not> is_passive P then
        (case front of
           [] \<Rightarrow> Inl ValueError
         | f # rest \<Rightarrow> Inr (map (\<lambda>p. fold min (map (arrival P p) rest) (arrival P p f)) pts))
      else Inr (map (\<lambda>_. 0) pts))"

definition dRX :: "point \<Rightarrow> element \<Rightarrow> real" where
  "dRX p e = (let dxT = fst p - xe e; dzT = snd p - ze e in sqrt (dxT\<^sup>2 + dzT\<^sup>2))"

text \<open>One row per image point, one column per element.\<close>

definition tau :: "param \<Rightarrow> real list \<Rightarrow> point list \<Rightarrow> element list \<Rightarrow> real list list" where
  "tau P dtx pts els = map2 (\<lambda>d p. map (\<lambda>e. (d + dRX p e) / c P) els) dtx pts"

definition idxt :: "param \<Rightarrow> real list list \<Rightarrow> real list list" where
  "idxt P ta = map (map (\<lambda>t. (t - t0 P) * fs P)) ta"

subsection \<open>In-range and aperture masks (lines 499 to 536)\<close>

definition in_range :: "interp_method \<Rightarrow> nat \<Rightarrow> real \<Rightarrow> bool" where
  "in_range m nl t =
     (case m of
        Nearest \<Rightarrow> 0 \<le> t \<and> t \<le> of_int (int nl - 1)
      | Linear \<Rightarrow> 0 \<le> t \<and> t \<le> of_int (int nl - 2)
      | Quadratic \<Rightarrow> 0 \<le> t \<and> t \<le> of_int (int nl - 3)
      | Lanczos3 \<Rightarrow> 0 \<le> t \<and> t \<le> of_int (int nl - 3)
      | FivePoints \<Rightarrow> 0 \<le> t \<and> t \<le> of_int (int nl - 3)
      | Lanczos5 \<Rightarrow> 0 \<le> t \<and> t \<le> of_int (int nl - 4))"

text \<open>
  With \<open>c = 0\<close> line 493 divides by zero: numpy yields \<open>inf\<close> or \<open>nan\<close>, for which the
  comparisons of lines 502 to 512 are all False.
\<close>

definition I_range :: "param \<Rightarrow> interp_method \<Rightarrow> nat \<Rightarrow> real list list \<Rightarrow> bool list list" where
  "I_range P m nl it = map (map (\<lambda>t. c P \<noteq> 0 \<and> in_range m nl t)) it"

text \<open>
  Line 521 divides by \<open>dRX\<close>; for a point on the element this is 0/0, a \<open>nan\<close> that
  satisfies no comparison.
\<close>

definition convex_aperture :: "real \<Rightarrow> point \<Rightarrow> element \<Rightarrow> bool" where
  "convex_aperture fNum p e =
     (dRX p e \<noteq> 0 \<and> \<bar>arcsin ((fst p - xe e) / dRX p e) - THe e\<bar> \<le> arctan (1 / 2 / fNum))"

definition linear_aperture :: "real \<Rightarrow> point \<Rightarrow> element \<Rightarrow> bool" where
  "linear_aperture fNum p e = (\<bar>fst p - xe e\<bar> \<le> snd p / 2 / fNum)"

text \<open>
  With a reception angle, line 534 reads the attribute \<open>tanRX\<close> of the array \<open>z\<close>, which
  no numpy array has.
\<close>

definition Iaperture :: "param \<Rightarrow> real \<Rightarrow> point list \<Rightarrow> element list \<Rightarrow> error + bool list list" where
  "Iaperture P fNum pts els =
     (if RXangle P = 0 then
        (case radius P of
           Some R \<Rightarrow> Inr (map (\<lambda>p. map (convex_aperture fNum p) els) pts)
         | None \<Rightarrow> Inr (map (\<lambda>p. map (linear_aperture fNum p) els) pts))
      else Inl AttributeError)"

definition I_mask ::
  "param \<Rightarrow> interp_method \<Rightarrow> nat \<Rightarrow> real \<Rightarrow> point list \<Rightarrow> element list \<Rightarrow> real list list
     \<Rightarrow> error + bool list list" where
  "I_mask P m nl fNum pts els it =
     (let I = I_range P m nl it
      in if fNum > 0 then
           (case Iaperture P fNum pts els of
              Inl err \<Rightarrow> Inl err
            | Inr A \<Rightarrow> Inr (map2 (map2 (\<and>)) I A))
         else Inr I)"

subsection \<open>Selected pairs (lines 540 to 545)\<close>

text \<open>
  \<open>j, i = np.where(I.T)\<close> lists the pairs that are True element by element and, for one
  element, point by point: \<open>i\<close> is the point and \<open>j\<close> the element of each pair.
\<close>

definition where_T :: "bool list list \<Rightarrow> nat \<Rightarrow> (nat \<times> nat) list" where
  "where_T I nc =
     concat (map (\<lambda>e. map (\<lambda>p. (p, e)) (filter (\<lambda>p. I ! p ! e) [0..<length I])) [0..<nc])"

text \<open>\<open>idx_matrix = idxt + np.arange(nc)*nl\<close>, taken at a selected pair.\<close>

definition idx_matrix :: "nat \<Rightarrow> real list list \<Rightarrow> nat \<times> nat \<Rightarrow> real" where
  "idx_matrix nl it pe = it ! fst pe ! snd pe + real (snd pe * nl)"

subsection \<open>Interpolation stencils (lines 544 to 592)\<close>

text \<open>
  An augmented assignment \<open>s *= rhs\<close> reads \<open>s\<close> first: when the local variable is not
  bound yet (\<open>None\<close>), Python raises UnboundLocalError.
\<close>

definition imul :: "real list option \<Rightarrow> real list \<Rightarrow> error + real list" where
  "imul s rhs =
     (case s of
        None \<Rightarrow> Inl UnboundLocalError
      | Some v \<Rightarrow> if length v = length rhs then Inr (map2 (*) v rhs) else Inl ValueError)"

definition lanczos :: "real \<Rightarrow> real" where
  "lanczos t = sinc t * sinc (t / 2)"

text \<open>
  The argument is the list \<open>idx\<close> of line 542. The result is the list \<open>j\<close>, the weights
  \<open>s\<close> and \<open>n_repeat\<close>.
\<close>

definition stencil :: "interp_method \<Rightarrow> real list \<Rightarrow> error + (int list \<times> real list \<times> nat)" where
  "stencil m idx0 =
     (let idxf = map floor idx0;
          idx = map2 (\<lambda>v f. v - of_int f) idx0 idxf
      in case m of
           Nearest \<Rightarrow> Inr (map np_round idx, map (\<lambda>_. 1) idx, 1)
         | Linear \<Rightarrow>
             Inr (idxf @ map (\<lambda>f. f + 1) idxf,
                  map (\<lambda>d. - d + 1) idx @ idx, 2)
         | Quadratic \<Rightarrow>
             Inr (idxf @ map (\<lambda>f. f + 1) idxf @ map (\<lambda>f. f + 2) idxf,
                  map (\<lambda>d. (d - 1) * (d - 2) / 2) idx @ map (\<lambda>d. - d * (d - 2)) idx
                    @ map (\<lambda>d. d * (d - 1) / 2) idx, 3)
         | Lanczos3 \<Rightarrow>
             Inr (map (\<lambda>f. f - 1) idxf @ idxf @ map (\<lambda>f. f + 1) idxf @ map (\<lambda>f. f + 2) idxf,
                  map (\<lambda>d. lanczos (d + 1)) idx @ map lanczos idx
                    @ map (\<lambda>d. lanczos (d - 1)) idx @ map (\<lambda>d. lanczos (d - 2)) idx, 4)
         | FivePoints \<Rightarrow>
             (let j = map (\<lambda>f. f - 2) idxf @ map (\<lambda>f. f - 1) idxf @ idxf
                        @ map (\<lambda>f. f + 1) idxf @ map (\<lambda>f. f + 2) idxf
              in case imul None
                     (map (\<lambda>d. 1 / 7 * d\<^sup>2 - 1 / 5 * d - 3 / 35) idx
                        @ map (\<lambda>d. - 1 / 14 * d\<^sup>2 - 1 / 10 * d + 12 / 35) idx
                        @ map (\<lambda>d. - 1 / 7 * d\<^sup>2 + 17 / 35) idx
                        @ map (\<lambda>d. - 1 / 14 * d\<^sup>2 + 1 / 10 * d + 12 / 35) idx
                        @ map (\<lambda>d. 1 / 7 * d\<^sup>2 + 1 / 5 * d - 3 / 35) idx) of
                   Inl err \<Rightarrow> Inl err
                 | Inr s \<Rightarrow> Inr (j, s, 5))
         | Lanczos5 \<Rightarrow>
             Inr (map (\<lambda>f. f - 2) idxf @ map (\<lambda>f. f - 1) idxf @ idxf @ map (\<lambda>f. f + 1) idxf
                    @ map (\<lambda>f. f + 2) idxf @ map (\<lambda>f. f + 3) idxf,
                  map (\<lambda>d. lanczos (d + 2)) idx @ map (\<lambda>d. lanczos (d + 1)) idx @ map lanczos idx
                    @ map (\<lambda>d. lanczos (d - 1)) idx @ map (\<lambda>d. lanczos (d - 2)) idx
                    @ map (\<lambda>d. lanczos (d - 3)) idx, 6))"

subsection \<open>Assembly of the sparse matrix (lines 594 to 614)\<close>

text \<open>
  The weights are real for RF signals and complex for I/Q signals. \<open>coo_matrix\<close> holds
  what the routine hands to \<open>scipy.sparse.coo_matrix\<close>: the values, the row and column
  index of each value, and the shape.
\<close>

datatype weights = RF "real list" | IQ "complex list"

record coo_matrix =
  data :: weights
  row :: "int list"
  col :: "int list"
  shape :: "nat \<times> nat"

text \<open>\<open>np.exp(1j*wc*np.tile(tau_I, n_repeat)) * s\<close>\<close>

definition phase :: "real \<Rightarrow> real list \<Rightarrow> real list \<Rightarrow> complex list" where
  "phase wc taus s = map2 (\<lambda>t w. exp (\<i> * of_real wc * of_real t) * of_real w) taus s"

text \<open>
  \<open>scipy.sparse.coo_matrix((s, (row, col)), shape)\<close> checks the indices when there is an
  entry: it raises ValueError for a negative index and for an index that is not below the
  dimension.
\<close>

definition valid_indices :: "int list \<Rightarrow> nat \<Rightarrow> bool" where
  "valid_indices ks n = list_all (\<lambda>k. 0 \<le> k \<and> k < int n) ks"

definition new_coo_matrix ::
  "weights \<Rightarrow> int list \<Rightarrow> int list \<Rightarrow> nat \<times> nat \<Rightarrow> error + coo_matrix" where
  "new_coo_matrix s rows cols dims =
     (if valid_indices rows (fst dims) \<and> valid_indices cols (snd dims)
      then Inr \<lparr>data = s, row = rows, col = cols, shape = dims\<rparr>
      else Inl ValueError)"

text \<open>
  \<open>flag\<close> is the field \<open>TransposeDASMatrix\<close> of \<open>param\<close>, \<open>None\<close> when the field is
  absent, and \<open>npoints\<close> is \<open>len(x)\<close>. The second component of the result is the field
  after the call.
\<close>

definition assemble ::
  "bool option \<Rightarrow> nat \<Rightarrow> nat \<Rightarrow> nat \<Rightarrow> weights \<Rightarrow> int list \<Rightarrow> int list
     \<Rightarrow> error + coo_matrix \<times> bool option" where
  "assemble flag npoints nl nc s i j =
     (case flag of
        Some _ \<Rightarrow>
          (if npoints > nl * nc
           then (case new_coo_matrix s i j (npoints, nl * nc) of
                   Inl err \<Rightarrow> Inl err
                 | Inr M \<Rightarrow> Inr (M, Some False))
           else (case new_coo_matrix s j i (nl * nc, npoints) of
                   Inl err \<Rightarrow> Inl err
                 | Inr M \<Rightarrow> Inr (M, Some True)))
      | None \<Rightarrow>
          (case new_coo_matrix s i j (npoints, nl * nc) of
             Inl err \<Rightarrow> Inl err
           | Inr M \<Rightarrow> Inr (M, None)))"

subsection \<open>The routine\<close>

definition then_do :: "error + 'a \<Rightarrow> ('a \<Rightarrow> error + 'b) \<Rightarrow> error + 'b" where
  "then_do r f = (case r of Inl err \<Rightarrow> Inl err | Inr v \<Rightarrow> f v)"

text \<open>
  \<open>nl\<close> is the number of samples of a signal. The number \<open>nc\<close> of signals is the number
  of elements; line 365 asserts that the delay vector has this length. \<open>selection\<close> is
  the routine from line 428 to line 543: it yields the selected pairs, the matrix \<open>idxt\<close>
  of the fast-time indices, the matrix \<open>tau\<close> of the travel times and the f-number.
\<close>

definition selection ::
  "(real list \<Rightarrow> real list \<Rightarrow> kind \<Rightarrow> real list) \<Rightarrow> ((real \<Rightarrow> real) \<Rightarrow> real \<Rightarrow> real \<Rightarrow> real)
     \<Rightarrow> nat \<Rightarrow> point list \<Rightarrow> real option list \<Rightarrow> element list \<Rightarrow> param \<Rightarrow> interp_method
     \<Rightarrow> error + (nat \<times> nat) list \<times> real list list \<times> real list list \<times> real" where
  "selection interp1 minimizer nl pts delaysTX els P m =
     (let nc = length els
      in if length delaysTX \<noteq> nc then Inl (AssertionError delays_length)
         else
           then_do (check_subaperture delaysTX) (\<lambda>_.
           let front = (if is_passive P then []
                        else tx_front interp1 (radius P = None) els delaysTX)
           in
           then_do (case fnumber P of None \<Rightarrow> auto_fnumber minimizer P | Some v \<Rightarrow> Inr v) (\<lambda>fNum.
           then_do (dTX P front pts) (\<lambda>dtx.
           let ta = tau P dtx pts els;
               it = idxt P ta
           in
           then_do (I_mask P m nl fNum pts els it) (\<lambda>I.
           Inr (where_T I nc, it, ta, fNum))))))"

text \<open>
  \<open>entries\<close> is the routine up to line 596, where \<open>isIQ\<close> says whether the signals are
  complex: it yields the weights \<open>s\<close>, the point index \<open>i\<close> and the column index \<open>j\<close> of
  every entry, and the f-number.
\<close>

definition entries ::
  "(real list \<Rightarrow> real list \<Rightarrow> kind \<Rightarrow> real list) \<Rightarrow> ((real \<Rightarrow> real) \<Rightarrow> real \<Rightarrow> real \<Rightarrow> real)
     \<Rightarrow> nat \<Rightarrow> bool \<Rightarrow> point list \<Rightarrow> real option list \<Rightarrow> element list \<Rightarrow> param \<Rightarrow> interp_method
     \<Rightarrow> error + weights \<times> int list \<times> int list \<times> real" where
  "entries interp1 minimizer nl isIQ pts delaysTX els P m =
     then_do (selection interp1 minimizer nl pts delaysTX els P m) (\<lambda>(sel, it, ta, fNum).
     let idx0 = map (idx_matrix nl it) sel;
         tau_I = map (\<lambda>pe. ta ! fst pe ! snd pe) sel
     in
     then_do (stencil m idx0) (\<lambda>(j, s, n_repeat).
     let i = tile (map (\<lambda>pe. int (fst pe)) sel) n_repeat;
         w = (if isIQ then IQ (phase (2 * pi * fc P) (tile tau_I n_repeat) s) else RF s)
     in Inr (w, i, j, fNum)))"

text \<open>
  The optional last argument \<open>METHOD\<close> is \<open>None\<close> when the call gives no scheme. When the
  last argument is a string, line 243 reads \<open>varargin[NArg - 1]\<close> with
  \<open>NArg = len(varargin) + 3\<close> (line 224), an index past the end of \<open>varargin\<close>, and
  Python raises IndexError. Without the argument the scheme is the linear one.
\<close>

definition read_method :: "interp_method option \<Rightarrow> error + interp_method" where
  "read_method METHOD = (case METHOD of Some m \<Rightarrow> Inl IndexError | None \<Rightarrow> Inr Linear)"

text \<open>
  The whole routine returns the matrix; \<open>param\<close> is updated in place, and the second
  component of the result is \<open>param\<close> as the call leaves it.
\<close>

definition dasmtx ::
  "(real list \<Rightarrow> real list \<Rightarrow> kind \<Rightarrow> real list) \<Rightarrow> ((real \<Rightarrow> real) \<Rightarrow> real \<Rightarrow> real \<Rightarrow> real)
     \<Rightarrow> nat \<Rightarrow> bool \<Rightarrow> point list \<Rightarrow> real option list \<Rightarrow> element list \<Rightarrow> param
     \<Rightarrow> interp_method option \<Rightarrow> error + coo_matrix \<times> param" where
  "dasmtx interp1 minimizer nl isIQ pts delaysTX els P METHOD =
     then_do (read_method METHOD) (\<lambda>m.
     then_do (entries interp1 minimizer nl isIQ pts delaysTX els P m) (\<lambda>(w, i, j, fNum).
     then_do (assemble (TransposeDASMatrix P) (length pts) nl (length els) w i j) (\<lambda>(M, flag).
     Inr (M, P\<lparr>fnumber := Some fNum, TransposeDASMatrix := flag\<rparr>))))"

text \<open>The transpose of a matrix in coordinate format.\<close>

definition transpose_coo :: "coo_matrix \<Rightarrow> coo_matrix" where
  "transpose_coo M =
     \<lparr>data = data M, row = col M, col = row M, shape = (snd (shape M), fst (shape M))\<rparr>"


subsection \<open>Example data\<close>

text \<open>
  A configuration of a linear array with unit sound speed, start time 0 and full aperture,
  with the sampling frequency left open; an element on the array at abscissa \<open>a\<close>; a
  front point with abscissa \<open>a\<close>, depth \<open>b\<close> and delay \<open>d\<close>.
\<close>

definition unit_param :: "real \<Rightarrow> param" where
  "unit_param rate =
     \<lparr>fs = rate, c = 1, t0 = 0, fnumber = Some 0, is_passive = False, radius = None,
      RXangle = 0, fc = 1, width = 1, bandwidth = 75, TransposeDASMatrix = None\<rparr>"

definition element_at :: "real \<Rightarrow> element" where
  "element_at a = \<lparr>xe = a, ze = 0, THe = 0\<rparr>"

definition origin_element :: element where
  "origin_element = \<lparr>xe = 0, ze = 0, THe = 0\<rparr>"

definition front_point :: "real \<Rightarrow> real \<Rightarrow> real \<Rightarrow> fpoint" where
  "front_point a b d = \<lparr>xTi = a, zTi = b, delaysTXi = d\<rparr>"

text \<open>
  Stand-ins for \<open>utils.interp1\<close> and for the minimiser. The example run has one active
  element and a given f-number, so that neither is called.
\<close>

definition zero_interp1 :: "real list \<Rightarrow> real list \<Rightarrow> kind \<Rightarrow> real list" where
  "zero_interp1 v q k = map (\<lambda>_. 0) q"

definition lower_end :: "(real \<Rightarrow> real) \<Rightarrow> real \<Rightarrow> real \<Rightarrow> real" where
  "lower_end f a b = a"

text \<open>
  The example run: ten samples per signal, RF signals, one image point at depth 1 under
  the only element, which transmits with delay 0. Both distances are 1, the travel time
  is 2 and the fast-time index of the pair is twice the sampling frequency.
\<close>

definition example_run :: "param \<Rightarrow> interp_method option \<Rightarrow> error + coo_matrix \<times> param" where
  "example_run P METHOD =
     dasmtx zero_interp1 lower_end 10 False [(0, 1)] [Some 0] [origin_element] P METHOD"

text \<open>
  A passive run on an array of three elements at the abscissae -3, 0 and 3, with one
  image point at depth 4 under the middle element, at the distances 5, 4 and 5.
\<close>

definition passive_run :: "real option list \<Rightarrow> error + coo_matrix \<times> param" where
  "passive_run delaysTX =
     dasmtx zero_interp1 lower_end 10 False [(0, 4)] delaysTX
       [element_at (- 3), element_at 0, element_at 3] ((unit_param 1)\<lparr>is_passive := True\<rparr>) None"

section \<open>Properties\<close>

subsection \<open>Auxiliary facts\<close>

lemma sum_bool_Cons: "sum_bool (b # bs) = (if b then 1 else 0) + sum_bool bs"
  by (simp add: sum_bool_def)

lemma transitions_runs:
  "bs \<noteq> [] \<Longrightarrow>
   sum_bool (diff_bool bs) + (if hd bs then 1 else 0) + (if last bs then 1 else 0) = 2 * runs bs"
proof (induction bs rule: runs.induct)
  case 1
  then show ?case by simp
next
  case (2 a)
  then show ?case by (simp add: sum_bool_def)
next
  case (3 a b bs)
  then show ?case by (auto simp: sum_bool_Cons)
qed

lemma fold_min_Min: "fold min (map g rest) (g f) = Min (g ` set (f # rest))"
proof -
  have "fold min (map g rest) (g f) = Min (set (g f # map g rest))"
    by (simp only: Min.set_eq_fold)
  then show ?thesis by simp
qed

lemma dTX_nth:
  assumes "p < length pts" and "is_passive P \<or> front \<noteq> []"
  shows "\<exists>dtx. dTX P front pts = Inr dtx \<and> length dtx = length pts
           \<and> dtx ! p = (if is_passive P then 0 else Min (arrival P (pts ! p) ` set front))"
proof (cases "is_passive P")
  case True
  with assms show ?thesis by (simp add: dTX_def)
next
  case False
  with assms obtain f rest where fr: "front = f # rest" by (cases front) auto
  show ?thesis using False assms(1) unfolding fr dTX_def
    by (simp add: fold_min_Min del: set_simps image_insert)
qed

lemma tau_nth:
  assumes "p < length pts" and "e < length els" and "length dtx = length pts"
  shows "tau P dtx pts els ! p ! e = (dtx ! p + dRX (pts ! p) (els ! e)) / c P"
  using assms by (simp add: tau_def)

lemma idxt_nth:
  assumes "p < length ta" and "e < length (ta ! p)"
  shows "idxt P ta ! p ! e = (ta ! p ! e - t0 P) * fs P"
  using assms by (simp add: idxt_def)

lemma tau_length: "length dtx = length pts \<Longrightarrow> length (tau P dtx pts els) = length pts"
  by (simp add: tau_def)

lemma tau_row_length:
  "length dtx = length pts \<Longrightarrow> p < length pts \<Longrightarrow> length (tau P dtx pts els ! p) = length els"
  by (simp add: tau_def)

lemma idxt_tau_rows:
  "q < length (idxt P (tau P dtx pts els)) \<Longrightarrow> length (idxt P (tau P dtx pts els) ! q) = length els"
  by (simp add: idxt_def tau_def)

lemma Iaperture_rows:
  "Iaperture P fNum pts els = Inr A \<Longrightarrow> q < length A \<Longrightarrow> length (A ! q) = length els"
  by (auto simp: Iaperture_def split: if_splits option.splits)

lemma I_mask_rows:
  assumes "I_mask P m nl fNum pts els (idxt P (tau P dtx pts els)) = Inr I" and "q < length I"
  shows "length (I ! q) = length els"
proof (cases "fNum > 0")
  case False
  with assms show ?thesis by (auto simp: I_mask_def I_range_def Let_def idxt_tau_rows)
next
  case True
  with assms(1) obtain A where A: "Iaperture P fNum pts els = Inr A"
    and I: "I = map2 (map2 (\<and>)) (I_range P m nl (idxt P (tau P dtx pts els))) A"
    by (auto simp: I_mask_def Let_def split: sum.splits)
  from assms(2) I have q: "q < length (idxt P (tau P dtx pts els))" "q < length A"
    by (simp_all add: I_range_def)
  with I show ?thesis
    by (simp add: I_range_def idxt_tau_rows Iaperture_rows [OF A])
qed

lemma I_mask_in_range:
  assumes "I_mask P m nl fNum pts els it = Inr I" and "p < length I" and "e < length (I ! p)"
    and "I ! p ! e"
  shows "p < length it \<and> e < length (it ! p) \<and> in_range m nl (it ! p ! e)"
proof (cases "fNum > 0")
  case False
  with assms show ?thesis by (auto simp: I_mask_def I_range_def Let_def)
next
  case True
  with assms(1) obtain A where A: "Iaperture P fNum pts els = Inr A"
    and I: "I = map2 (map2 (\<and>)) (I_range P m nl it) A"
    by (auto simp: I_mask_def Let_def split: sum.splits)
  from assms(2) I have p: "p < length it" "p < length A" by (simp_all add: I_range_def)
  with I have row: "I ! p = map2 (\<and>) (I_range P m nl it ! p) (A ! p)" by (simp add: I_range_def)
  with assms(3) have e: "e < length (it ! p)" "e < length (A ! p)"
    using p by (simp_all add: I_range_def)
  with row assms(4) p have "I_range P m nl it ! p ! e" by (simp add: I_range_def)
  with p e show ?thesis by (simp add: I_range_def)
qed

lemma where_T_mem:
  "(p, e) \<in> set (where_T I nc) \<Longrightarrow> p < length I \<and> e < nc \<and> I ! p ! e"
  by (auto simp: where_T_def)

lemma where_T_single: "where_T [[b]] (Suc 0) = (if b then [(0, 0)] else [])"
  by (simp add: where_T_def)

lemma floor_bounds:
  fixes t :: real and k :: int
  assumes "0 \<le> t" and "t \<le> of_int k"
  shows "0 \<le> \<lfloor>t\<rfloor> \<and> \<lfloor>t\<rfloor> \<le> k"
  using assms by (simp add: floor_le_iff le_floor_iff)

lemma np_round_bounds:
  fixes t :: real and k :: int
  assumes "0 \<le> t" and "t \<le> of_int k"
  shows "0 \<le> np_round t \<and> np_round t \<le> k"
proof -
  have f: "0 \<le> \<lfloor>t\<rfloor>" "\<lfloor>t\<rfloor> \<le> k" using floor_bounds [OF assms] by auto
  show ?thesis
  proof (cases "\<lfloor>t\<rfloor> = k")
    case True
    then have "t - of_int \<lfloor>t\<rfloor> = 0" using assms(2) by linarith
    then show ?thesis using f by (simp add: np_round_def Let_def)
  next
    case False
    then have "\<lfloor>t\<rfloor> + 1 \<le> k" using f(2) by simp
    then show ?thesis using f by (auto simp: np_round_def Let_def)
  qed
qed

lemma in_range_bounds:
  assumes "in_range m nl t"
  shows "case m of
      Nearest \<Rightarrow> 0 \<le> np_round t \<and> np_round t \<le> int nl - 1
    | Linear \<Rightarrow> 0 \<le> \<lfloor>t\<rfloor> \<and> \<lfloor>t\<rfloor> \<le> int nl - 2
    | Quadratic \<Rightarrow> 0 \<le> \<lfloor>t\<rfloor> \<and> \<lfloor>t\<rfloor> \<le> int nl - 3
    | Lanczos3 \<Rightarrow> 0 \<le> \<lfloor>t\<rfloor> \<and> \<lfloor>t\<rfloor> \<le> int nl - 3
    | FivePoints \<Rightarrow> 0 \<le> \<lfloor>t\<rfloor> \<and> \<lfloor>t\<rfloor> \<le> int nl - 3
    | Lanczos5 \<Rightarrow> 0 \<le> \<lfloor>t\<rfloor> \<and> \<lfloor>t\<rfloor> \<le> int nl - 4"
proof (cases m)
  case Nearest
  with assms show ?thesis using np_round_bounds [of t "int nl - 1"] by (simp add: in_range_def)
next
  case Linear
  with assms show ?thesis using floor_bounds [of t "int nl - 2"] by (simp add: in_range_def)
next
  case Quadratic
  with assms show ?thesis using floor_bounds [of t "int nl - 3"] by (simp add: in_range_def)
next
  case Lanczos3
  with assms show ?thesis using floor_bounds [of t "int nl - 3"] by (simp add: in_range_def)
next
  case FivePoints
  with assms show ?thesis using floor_bounds [of t "int nl - 3"] by (simp add: in_range_def)
next
  case Lanczos5
  with assms show ?thesis using floor_bounds [of t "int nl - 4"] by (simp add: in_range_def)
qed

lemma floor_add_nat: "\<lfloor>t + real m\<rfloor> = \<lfloor>t\<rfloor> + int m" for t :: real
  by linarith

lemma tile_2: "tile xs 2 = xs @ xs"
  by (simp add: tile_def numeral_2_eq_2)

lemma stencil_Linear:
  "stencil Linear idx0 =
     Inr (map floor idx0 @ map (\<lambda>v. \<lfloor>v\<rfloor> + 1) idx0,
          map (\<lambda>v. 1 - (v - of_int \<lfloor>v\<rfloor>)) idx0 @ map (\<lambda>v. v - of_int \<lfloor>v\<rfloor>) idx0, 2)"
  by (simp add: stencil_def Let_def zip_map2 zip_same_conv_map o_def)

lemma arrival_flag: "arrival (P\<lparr>TransposeDASMatrix := v\<rparr>) = arrival P"
  by (rule ext)+ (simp add: arrival_def)

lemma dTX_flag: "dTX (P\<lparr>TransposeDASMatrix := v\<rparr>) front pts = dTX P front pts"
  by (simp add: dTX_def arrival_flag split: list.splits)

lemma I_mask_flag:
  "I_mask (P\<lparr>TransposeDASMatrix := v\<rparr>) m nl fNum pts els it = I_mask P m nl fNum pts els it"
  by (simp add: I_mask_def I_range_def Iaperture_def Let_def)

lemma selection_flag:
  "selection interp1 minimizer nl pts delaysTX els (P\<lparr>TransposeDASMatrix := v\<rparr>) m
     = selection interp1 minimizer nl pts delaysTX els P m"
  by (cases "fnumber P")
     (simp_all add: selection_def dTX_flag I_mask_flag auto_fnumber_def tau_def idxt_def Let_def)

lemma entries_flag:
  "entries interp1 minimizer nl isIQ pts delaysTX els (P\<lparr>TransposeDASMatrix := v\<rparr>) m
     = entries interp1 minimizer nl isIQ pts delaysTX els P m"
  by (cases isIQ) (simp_all add: entries_def selection_flag)

lemma auto_fnumber_fails: "auto_fnumber minimizer P = Inl TypeError"
  by (simp add: auto_fnumber_def py_call_def fminbound_params_def Let_def)


lemma sqrt_9: "sqrt 9 = 3"
  using real_sqrt_abs [of 3] by simp

lemma sqrt_16: "sqrt 16 = 4"
  using real_sqrt_abs [of 4] by simp

lemma sqrt_25: "sqrt 25 = 5"
  using real_sqrt_abs [of 5] by simp

lemma where_T_row3:
  "where_T [[a, b, d]] (Suc (Suc (Suc 0)))
     = (if a then [(0, 0)] else []) @ (if b then [(0, Suc 0)] else [])
       @ (if d then [(0, Suc (Suc 0))] else [])"
  by (simp add: where_T_def)

lemmas run_simps =
  example_run_def dasmtx_def read_method_def entries_def selection_def then_do_def
  check_subaperture_def active_def sum_bool_def
  unit_param_def origin_element_def tx_front_def select_def List.map_filter_simps
  dTX_def arrival_def tau_def dRX_def idxt_def I_mask_def I_range_def
  in_range_def where_T_single idx_matrix_def stencil_def tile_def assemble_def
  new_coo_matrix_def valid_indices_def Let_def

subsection \<open>Travel times and fast-time indices\<close>

text \<open>
  Claim C1. For every image point \<open>p = (x, z)\<close> and element \<open>e\<close> the routine computes the
  receive distance \<open>sqrt ((x - x\<^sub>e)\<^sup>2 + (z - z\<^sub>e)\<^sup>2)\<close>, the transmit distance as 0 in
  passive mode and otherwise as the minimum over the front points \<open>f\<close> of
  \<open>delay\<^sub>f * c + sqrt ((x - x\<^sub>f)\<^sup>2 + (z - z\<^sub>f)\<^sup>2)\<close>, the travel time as the sum of the
  two distances divided by \<open>c\<close>, and the fast-time index as the travel time minus \<open>t0\<close>,
  times \<open>fs\<close>. The transmit distances exist as soon as the mode is passive or the front
  has a point.
\<close>

theorem travel_time_field:
  assumes "p < length pts" and "e < length els" and "is_passive P \<or> front \<noteq> []"
  shows "\<exists>dtx. dTX P front pts = Inr dtx
     \<and> dtx ! p = (if is_passive P then 0
                  else Min ((\<lambda>f. delaysTXi f * c P
                                  + sqrt ((fst (pts ! p) - xTi f)\<^sup>2 + (snd (pts ! p) - zTi f)\<^sup>2))
                            ` set front))
     \<and> dRX (pts ! p) (els ! e)
         = sqrt ((fst (pts ! p) - xe (els ! e))\<^sup>2 + (snd (pts ! p) - ze (els ! e))\<^sup>2)
     \<and> tau P dtx pts els ! p ! e = (dtx ! p + dRX (pts ! p) (els ! e)) / c P
     \<and> idxt P (tau P dtx pts els) ! p ! e = (tau P dtx pts els ! p ! e - t0 P) * fs P"
proof -
  from dTX_nth [OF assms(1) assms(3)] obtain dtx where
    d: "dTX P front pts = Inr dtx" "length dtx = length pts"
       "dtx ! p = (if is_passive P then 0 else Min (arrival P (pts ! p) ` set front))"
    by blast
  have ar: "arrival P (pts ! p) = (\<lambda>f. delaysTXi f * c P
               + sqrt ((fst (pts ! p) - xTi f)\<^sup>2 + (snd (pts ! p) - zTi f)\<^sup>2))"
    by (rule ext) (simp add: arrival_def power2_commute)
  have "idxt P (tau P dtx pts els) ! p ! e = (tau P dtx pts els ! p ! e - t0 P) * fs P"
    by (rule idxt_nth) (simp_all add: tau_length tau_row_length d(2) assms)
  moreover have "tau P dtx pts els ! p ! e = (dtx ! p + dRX (pts ! p) (els ! e)) / c P"
    by (rule tau_nth) (simp_all add: d(2) assms)
  moreover have "dRX (pts ! p) (els ! e)
         = sqrt ((fst (pts ! p) - xe (els ! e))\<^sup>2 + (snd (pts ! p) - ze (els ! e))\<^sup>2)"
    by (simp add: dRX_def)
  ultimately show ?thesis using d(1) d(3) unfolding ar by blast
qed

theorem travel_time_field_witness:
  "(0::nat) < length [(0::real, 1::real)] \<and> (0::nat) < length [origin_element]
   \<and> [front_point 0 1 3] \<noteq> []
   \<and> dTX (unit_param 2) [front_point 0 1 3] [(0, 1)] = Inr [3]
   \<and> dRX (0, 1) origin_element = 1
   \<and> tau (unit_param 2) [3] [(0, 1)] [origin_element] ! 0 ! 0 = 4
   \<and> idxt (unit_param 2) (tau (unit_param 2) [3] [(0, 1)] [origin_element]) ! 0 ! 0 = 8"
  using travel_time_field [of 0 "[(0, 1)]" 0 "[origin_element]" "unit_param 2"
      "[front_point 0 1 3]"]
  by (simp add: unit_param_def front_point_def origin_element_def dTX_def
      arrival_def dRX_def tau_def idxt_def)

subsection \<open>Orientation of the matrix\<close>

text \<open>
  Claim C2, as the code has it. When \<open>param\<close> has the field \<open>TransposeDASMatrix\<close>, the
  routine returns the matrix of shape (points, \<open>nl * nc\<close>) unchanged when the number of
  points exceeds \<open>nl * nc\<close>, and its transpose, of shape (\<open>nl * nc\<close>, points), otherwise:
  the matrix is transposed exactly when the number of points is at most \<open>nl * nc\<close>. The
  field is set to whether the matrix was transposed.
\<close>

theorem orientation_choice:
  assumes "dasmtx interp1 minimizer nl isIQ pts delaysTX els P METHOD = Inr (M, P')"
    and "TransposeDASMatrix P = Some b"
  shows "\<exists>M0 P0. dasmtx interp1 minimizer nl isIQ pts delaysTX els
                    (P\<lparr>TransposeDASMatrix := None\<rparr>) METHOD = Inr (M0, P0)
           \<and> shape M0 = (length pts, nl * length els)
           \<and> M = (if nl * length els < length pts then M0 else transpose_coo M0)
           \<and> shape M = (if nl * length els < length pts then (length pts, nl * length els)
                         else (nl * length els, length pts))
           \<and> TransposeDASMatrix P' = Some (\<not> nl * length els < length pts)"
  using assms
  by (auto simp: dasmtx_def then_do_def assemble_def new_coo_matrix_def entries_flag
      transpose_coo_def split: sum.splits if_splits prod.splits)

theorem orientation_choice_witness:
  "example_run ((unit_param (7 / 4))\<lparr>TransposeDASMatrix := Some False\<rparr>) None
     = Inr (\<lparr>data = RF [1 / 2, 1 / 2], row = [3, 4], col = [0, 0], shape = (10, 1)\<rparr>,
            (unit_param (7 / 4))\<lparr>TransposeDASMatrix := Some True\<rparr>)
   \<and> TransposeDASMatrix ((unit_param (7 / 4))\<lparr>TransposeDASMatrix := Some False\<rparr>) = Some False
   \<and> \<not> 10 * length [origin_element] < length [(0::real, 1::real)]"
proof -
  let ?P = "(unit_param (7 / 4))\<lparr>TransposeDASMatrix := Some False\<rparr>"
  have run: "dasmtx zero_interp1 lower_end 10 False [(0, 1)] [Some 0] [origin_element] ?P None
     = Inr (\<lparr>data = RF [1 / 2, 1 / 2], row = [3, 4], col = [0, 0], shape = (10, 1)\<rparr>,
            (unit_param (7 / 4))\<lparr>TransposeDASMatrix := Some True\<rparr>)"
    by (simp add: run_simps eval_nat_numeral)
  have flag: "TransposeDASMatrix ?P = Some False" by simp
  from orientation_choice [OF run flag] run flag show ?thesis by (simp add: example_run_def)
qed

text \<open>
  With the default linear scheme, one image point is fewer than \<open>nl * nc = 10\<close>, and the
  matrix is transposed: its shape is (10, 1) and the field is set to True.
\<close>

theorem orientation_counterexample:
  "length [(0::real, 1::real)] < 10 * length [origin_element]
   \<and> example_run ((unit_param (7 / 4))\<lparr>TransposeDASMatrix := Some False\<rparr>) None
     = Inr (\<lparr>data = RF [1 / 2, 1 / 2], row = [3, 4], col = [0, 0], shape = (10, 1)\<rparr>,
            (unit_param (7 / 4))\<lparr>TransposeDASMatrix := Some True\<rparr>)
   \<and> (10::nat, 1::nat) \<noteq> (length [(0::real, 1::real)], 10 * length [origin_element])"
  by (simp add: run_simps eval_nat_numeral)

subsection \<open>Transmit sub-aperture\<close>

text \<open>
  With a delay vector of the length of the array and without the argument \<open>METHOD\<close>, the
  routine raises the assertion error of line 429 exactly when the indicator of the active
  elements changes at least three times along the array.
\<close>

lemma subaperture_assertion:
  assumes "length delaysTX = length els"
  shows "dasmtx interp1 minimizer nl isIQ pts delaysTX els P None
           = Inl (AssertionError several_subapertures)
         \<longleftrightarrow> 3 \<le> sum_bool (diff_bool (active delaysTX))"
proof (cases "3 \<le> sum_bool (diff_bool (active delaysTX))")
  case True
  with assms show ?thesis
    by (simp add: dasmtx_def read_method_def entries_def selection_def then_do_def
        check_subaperture_def)
next
  case False
  then have ok: "check_subaperture delaysTX = Inr ()" by (simp add: check_subaperture_def)
  have "selection interp1 minimizer nl pts delaysTX els P Linear
          \<noteq> Inl (AssertionError several_subapertures)"
    using assms ok
    by (auto simp: selection_def then_do_def Let_def auto_fnumber_fails dTX_def I_mask_def
        Iaperture_def split: option.splits sum.splits if_splits list.splits)
  then have "dasmtx interp1 minimizer nl isIQ pts delaysTX els P None
          \<noteq> Inl (AssertionError several_subapertures)"
    by (auto simp: dasmtx_def read_method_def entries_def then_do_def stencil_Linear Let_def
        assemble_def new_coo_matrix_def split: option.splits sum.splits if_splits prod.splits)
  with False show ?thesis by simp
qed

lemma changes_runs:
  "3 \<le> sum_bool (diff_bool bs) \<longleftrightarrow> 2 \<le> runs bs \<and> \<not> (runs bs = 2 \<and> hd bs \<and> last bs)"
proof (cases "bs = []")
  case True
  then show ?thesis by (simp add: sum_bool_def)
next
  case False
  from transitions_runs [OF False] show ?thesis by (auto split: if_splits)
qed

text \<open>
  Claim C3, as the code has it. For a delay vector of the length of the array, the
  routine does not raise the assertion error of line 429 when the active elements form at
  most one contiguous run, and it raises it when they form two or more runs, unless they
  form exactly two runs that reach both ends of the array. The routine detects this by
  the number of changes of the indicator of the active elements being at least 3. Nothing
  is said of a vector with exactly two runs of active elements that reach both ends of
  the array.
\<close>

theorem subaperture_rejection:
  assumes "length delaysTX = length els"
  shows "(runs (active delaysTX) \<le> 1 \<longrightarrow>
            dasmtx interp1 minimizer nl isIQ pts delaysTX els P None
              \<noteq> Inl (AssertionError several_subapertures))
       \<and> (2 \<le> runs (active delaysTX)
            \<and> \<not> (runs (active delaysTX) = 2 \<and> hd (active delaysTX) \<and> last (active delaysTX))
          \<longrightarrow> dasmtx interp1 minimizer nl isIQ pts delaysTX els P None
                = Inl (AssertionError several_subapertures))
       \<and> (3 \<le> sum_bool (diff_bool (active delaysTX))
          \<longleftrightarrow> 2 \<le> runs (active delaysTX)
               \<and> \<not> (runs (active delaysTX) = 2 \<and> hd (active delaysTX) \<and> last (active delaysTX)))"
  using subaperture_assertion [OF assms, of interp1 minimizer nl isIQ pts P]
    changes_runs [of "active delaysTX"]
  by auto

theorem subaperture_rejection_witness:
  "length [None, Some 0, None] = length [element_at (- 3), element_at 0, element_at 3]
   \<and> runs (active [None, Some 0, None]) \<le> 1
   \<and> passive_run [None, Some 0, None] \<noteq> Inl (AssertionError several_subapertures)
   \<and> length [Some 0, None, Some 0, None]
       = length [element_at (- 3), element_at (- 1), element_at 1, element_at 3]
   \<and> 2 \<le> runs (active [Some 0, None, Some 0, None])
   \<and> \<not> last (active [Some 0, None, Some 0, None])
   \<and> dasmtx zero_interp1 lower_end 10 False [(0, 4)] [Some 0, None, Some 0, None]
        [element_at (- 3), element_at (- 1), element_at 1, element_at 3] (unit_param 1) None
      = Inl (AssertionError several_subapertures)"
  using subaperture_rejection [of "[None, Some 0, None]"
      "[element_at (- 3), element_at 0, element_at 3]" zero_interp1 lower_end 10 False "[(0, 4)]"
      "(unit_param 1)\<lparr>is_passive := True\<rparr>"]
    subaperture_rejection [of "[Some 0, None, Some 0, None]"
      "[element_at (- 3), element_at (- 1), element_at 1, element_at 3]" zero_interp1 lower_end
      10 False "[(0, 4)]" "unit_param 1"]
  by (simp add: active_def passive_run_def)

text \<open>
  The first and the last element transmit and the middle one is off: the active elements
  form two runs, and the routine accepts the vector and returns the matrix. A single run
  in the middle of the array, with two changes of the indicator, is accepted too.
\<close>

theorem subaperture_counterexample:
  "runs (active [Some 0, None, Some 0]) = 2
   \<and> passive_run [Some 0, None, Some 0]
     = Inr (\<lparr>data = RF [1, 1, 1, 0, 0, 0], row = [0, 0, 0, 0, 0, 0],
             col = [5, 14, 25, 6, 15, 26], shape = (1, 30)\<rparr>,
            (unit_param 1)\<lparr>is_passive := True\<rparr>)
   \<and> runs (active [None, Some 0, None]) = 1
   \<and> 2 \<le> sum_bool (diff_bool (active [None, Some 0, None]))
   \<and> check_subaperture [None, Some 0, None] = Inr ()"
  by (simp add: passive_run_def dasmtx_def read_method_def entries_def selection_def then_do_def
      check_subaperture_def active_def sum_bool_def unit_param_def element_at_def
      dTX_def tau_def dRX_def idxt_def I_mask_def I_range_def in_range_def
      idx_matrix_def stencil_def tile_def assemble_def new_coo_matrix_def valid_indices_def
      Let_def sqrt_25 sqrt_16 where_T_row3 eval_nat_numeral)

subsection \<open>Nearest-neighbour interpolation\<close>

text \<open>
  The columns of the nearest-neighbour scheme are the rounded fractional parts, 0 or 1,
  whatever the element and the sample.
\<close>

lemma nearest_columns:
  assumes "stencil Nearest idx0 = Inr (j, s, n)"
  shows "set j \<subseteq> {0, 1} \<and> length j = length idx0 \<and> s = map (\<lambda>_. 1) idx0 \<and> n = 1"
proof -
  have r: "np_round (v - of_int \<lfloor>v\<rfloor>) \<in> {0, 1}" for v :: real
  proof -
    have "\<lfloor>v - of_int \<lfloor>v\<rfloor>\<rfloor> = 0" by linarith
    then show ?thesis by (simp add: np_round_def Let_def)
  qed
  from assms have j: "j = map (\<lambda>v. np_round (v - of_int \<lfloor>v\<rfloor>)) idx0"
    and s: "s = map (\<lambda>_. 1) idx0" and n: "n = 1"
    by (auto simp: stencil_def Let_def zip_map2 zip_same_conv_map o_def)
  from j r have "set j \<subseteq> {0, 1}" by auto
  with j s n show ?thesis by simp
qed

text \<open>
  Claim C4 on the code. A call that names the nearest-neighbour scheme yields no entry:
  it raises IndexError at line 243, whatever the other arguments. Behind that, the block
  of lines 544 to 552 does not place the entry at the rounded index either: for a pair of
  the first element with fast-time index 16/5, which rounds to 3, it yields the weight 1
  in column 0, since line 550 rounds the fractional part that line 545 has left in
  \<open>idx\<close>.
\<close>

theorem nearest_no_entry:
  "dasmtx interp1 minimizer nl isIQ pts delaysTX els P (Some Nearest) = Inl IndexError
   \<and> np_round (16 / 5) = 3
   \<and> stencil Nearest [idx_matrix 10 [[16 / 5]] (0, 0)] = Inr ([0], [1], 1)"
  by (simp add: dasmtx_def read_method_def then_do_def stencil_def idx_matrix_def np_round_def)

subsection \<open>Five-point interpolation\<close>

text \<open>
  Claim C5 on the code. The five-point scheme never yields its taps: line 578 multiplies
  the weights into \<open>s\<close> with \<open>*=\<close> before \<open>s\<close> has been bound, and the block of lines
  575 to 583 raises UnboundLocalError for every list of indices. A call that names the
  scheme does not reach the block: it raises IndexError at line 243.
\<close>

theorem five_points_unbound: "stencil FivePoints idx0 = Inl UnboundLocalError"
  by (simp add: stencil_def imul_def Let_def)

subsection \<open>Automatic f-number\<close>

text \<open>
  Claim C6 on the code. The automatic f-number is never produced: line 459 passes the
  tolerance to \<open>fminbound\<close> under the keyword \<open>tolx\<close>, which is not one of its
  parameters, and the call raises TypeError for every configuration.
\<close>

theorem auto_fnumber_type_error: "auto_fnumber minimizer P = Inl TypeError"
  by (simp add: auto_fnumber_def py_call_def fminbound_params_def Let_def)

subsection \<open>Stencil margins\<close>

text \<open>
  Claim C7. For every pair of a point and an element that the routine selects, the
  fast-time index of the pair satisfies the bounds of the scheme: for the linear scheme
  its floor lies between 0 and \<open>nl - 2\<close>, for the nearest scheme its rounded value lies
  between 0 and \<open>nl - 1\<close>, for the quadratic, 3-lobe Lanczos and five-point schemes its
  floor lies between 0 and \<open>nl - 3\<close>, and for the 5-lobe Lanczos scheme between 0 and
  \<open>nl - 4\<close>.
\<close>

theorem stencil_margin:
  assumes "dTX P front pts = Inr dtx"
    and "I_mask P m nl fNum pts els (idxt P (tau P dtx pts els)) = Inr I"
    and "(p, e) \<in> set (where_T I (length els))"
  shows "case m of
      Nearest \<Rightarrow> 0 \<le> np_round (idxt P (tau P dtx pts els) ! p ! e)
                  \<and> np_round (idxt P (tau P dtx pts els) ! p ! e) \<le> int nl - 1
    | Linear \<Rightarrow> 0 \<le> \<lfloor>idxt P (tau P dtx pts els) ! p ! e\<rfloor>
                  \<and> \<lfloor>idxt P (tau P dtx pts els) ! p ! e\<rfloor> \<le> int nl - 2
    | Quadratic \<Rightarrow> 0 \<le> \<lfloor>idxt P (tau P dtx pts els) ! p ! e\<rfloor>
                  \<and> \<lfloor>idxt P (tau P dtx pts els) ! p ! e\<rfloor> \<le> int nl - 3
    | Lanczos3 \<Rightarrow> 0 \<le> \<lfloor>idxt P (tau P dtx pts els) ! p ! e\<rfloor>
                  \<and> \<lfloor>idxt P (tau P dtx pts els) ! p ! e\<rfloor> \<le> int nl - 3
    | FivePoints \<Rightarrow> 0 \<le> \<lfloor>idxt P (tau P dtx pts els) ! p ! e\<rfloor>
                  \<and> \<lfloor>idxt P (tau P dtx pts els) ! p ! e\<rfloor> \<le> int nl - 3
    | Lanczos5 \<Rightarrow> 0 \<le> \<lfloor>idxt P (tau P dtx pts els) ! p ! e\<rfloor>
                  \<and> \<lfloor>idxt P (tau P dtx pts els) ! p ! e\<rfloor> \<le> int nl - 4"
proof -
  from where_T_mem [OF assms(3)] have pe: "p < length I" "e < length els" "I ! p ! e" by auto
  from I_mask_rows [OF assms(2) pe(1)] pe(2) have "e < length (I ! p)" by simp
  from I_mask_in_range [OF assms(2) pe(1) this pe(3)]
  have "in_range m nl (idxt P (tau P dtx pts els) ! p ! e)" by simp
  then show ?thesis by (rule in_range_bounds)
qed

theorem stencil_margin_witness:
  "dTX (unit_param (7 / 4)) [front_point 0 0 0] [(0, 1)] = Inr [1]
   \<and> I_mask (unit_param (7 / 4)) Linear 10 0 [(0, 1)] [origin_element]
        (idxt (unit_param (7 / 4)) (tau (unit_param (7 / 4)) [1] [(0, 1)] [origin_element]))
      = Inr [[True]]
   \<and> (0, 0) \<in> set (where_T [[True]] (length [origin_element]))
   \<and> idxt (unit_param (7 / 4)) (tau (unit_param (7 / 4)) [1] [(0, 1)] [origin_element]) ! 0 ! 0
      = 7 / 2
   \<and> (0::int) \<le> \<lfloor>7 / 2 :: real\<rfloor> \<and> \<lfloor>7 / 2 :: real\<rfloor> \<le> int 10 - 2"
proof -
  have a: "dTX (unit_param (7 / 4)) [front_point 0 0 0] [(0, 1)] = Inr [1]"
    by (simp add: dTX_def arrival_def unit_param_def front_point_def)
  have b: "I_mask (unit_param (7 / 4)) Linear 10 0 [(0, 1)] [origin_element]
        (idxt (unit_param (7 / 4)) (tau (unit_param (7 / 4)) [1] [(0, 1)] [origin_element]))
      = Inr [[True]]"
    by (simp add: I_mask_def I_range_def in_range_def idxt_def tau_def dRX_def unit_param_def
        origin_element_def)
  have c: "(0, 0) \<in> set (where_T [[True]] (length [origin_element]))"
    by (simp add: where_T_single)
  have d: "idxt (unit_param (7 / 4)) (tau (unit_param (7 / 4)) [1] [(0, 1)] [origin_element])
             ! 0 ! 0 = 7 / 2"
    by (simp add: idxt_def tau_def dRX_def unit_param_def origin_element_def)
  from stencil_margin [OF a b c] a b c d show ?thesis by simp
qed

subsection \<open>Linear interpolation\<close>

text \<open>
  Claim C8. For the linear scheme every selected pair yields exactly two taps, in the row
  of its point: one at the floor of its fast-time index, in the block of its element, with
  weight \<open>1 - \<delta>\<close>, and one at the next sample with weight \<open>\<delta>\<close>, where \<open>\<delta>\<close> is the
  fractional part of the index, at least 0 and less than 1. The two weights sum to 1.
  Here \<open>sel\<close> is the list of the selected pairs and \<open>it\<close> the matrix of the indices.
\<close>

theorem linear_taps:
  assumes "k < length sel"
  shows "\<exists>j s. stencil Linear (map (idx_matrix nl it) sel) = Inr (j, s, 2)
     \<and> length j = 2 * length sel \<and> length s = 2 * length sel
     \<and> (let t = it ! fst (sel ! k) ! snd (sel ! k);
             base = int (snd (sel ! k) * nl) + \<lfloor>t\<rfloor>;
             \<delta> = t - of_int \<lfloor>t\<rfloor>;
             n = length sel;
             i = tile (map (\<lambda>pe. int (fst pe)) sel) 2
         in j ! k = base \<and> j ! (n + k) = base + 1
            \<and> s ! k = 1 - \<delta> \<and> s ! (n + k) = \<delta>
            \<and> 0 \<le> \<delta> \<and> \<delta> < 1 \<and> s ! k + s ! (n + k) = 1
            \<and> i ! k = int (fst (sel ! k)) \<and> i ! (n + k) = int (fst (sel ! k)))"
proof -
  let ?idx0 = "map (idx_matrix nl it) sel"
  let ?t = "it ! fst (sel ! k) ! snd (sel ! k)"
  have v: "?idx0 ! k = ?t + real (snd (sel ! k) * nl)"
    using assms by (simp add: idx_matrix_def)
  have fl: "\<lfloor>?idx0 ! k\<rfloor> = int (snd (sel ! k) * nl) + \<lfloor>?t\<rfloor>"
    unfolding v floor_add_nat by simp
  have fr: "?idx0 ! k - of_int \<lfloor>?idx0 ! k\<rfloor> = ?t - of_int \<lfloor>?t\<rfloor>"
    unfolding fl unfolding v by simp
  have d: "0 \<le> ?t - of_int \<lfloor>?t\<rfloor>" "?t - of_int \<lfloor>?t\<rfloor> < 1" by linarith+
  show ?thesis
    unfolding stencil_Linear
    apply (intro exI conjI)
       apply (rule refl)
      apply simp
     apply simp
    using assms fl fr d
    apply (simp add: Let_def nth_append tile_2 del: of_nat_mult)
    done
qed

theorem linear_taps_witness:
  "(0::nat) < length [(0::nat, 1::nat)]
   \<and> stencil Linear (map (idx_matrix 10 [[0, 7 / 2]]) [(0, 1)]) = Inr ([13, 14], [1 / 2, 1 / 2], 2)
   \<and> tile (map (\<lambda>pe. int (fst pe)) [(0::nat, 1::nat)]) 2 = [0, 0]"
  using linear_taps [of 0 "[(0, 1)]" 10 "[[0, 7 / 2]]"]
  by (simp add: stencil_Linear idx_matrix_def tile_2)

subsection \<open>Empty selections\<close>

text \<open>
  Every scheme but the five-point one turns an empty selection into empty lists of
  columns and weights.
\<close>

lemma stencil_empty: "m \<noteq> FivePoints \<Longrightarrow> \<exists>n. stencil m [] = Inr ([], [], n)"
  by (cases m) (simp_all add: stencil_def)


subsection \<open>Columns of the entries\<close>






end
